theory Spec2Isabelle
  imports Complex_Main
begin

section \<open>Numbers and errors\<close>

text \<open>
  Python floats are modelled as exact reals together with the three IEEE sentinels the
  source can produce. Rounding is not modelled: every statement below is about exact
  arithmetic on the values the code combines.
\<close>

datatype pyfloat = Fin real | PInf | NInf | NaN

text \<open>
  The exceptions of the Python run-time and of the libraries the source calls. The
  source defines no exception class of its own; \<open>InsufficientDataError\<close> and
  \<open>DegenerateSpreadError\<close> are the names the specification uses, and no function below
  produces them.
\<close>

datatype error =
    ValueError string
  | TypeError string
  | KeyError string
  | InsufficientDataError
  | DegenerateSpreadError

section \<open>balance\_calculator.py\<close>

record BalanceIndex =
  stem_percent :: real
  humanities_percent :: real
  region :: "string option"

definition validate_percentage :: "real \<Rightarrow> string \<Rightarrow> error + real" where
  "validate_percentage v field_name =
     (if \<not> (0 \<le> v \<and> v \<le> 100)
      then Inl (ValueError (field_name @ '' percentage must be between 0 and 100''))
      else Inr v)"

text \<open>The constructor: STEM is validated first, then humanities.\<close>

definition BalanceIndex_init :: "real \<Rightarrow> real \<Rightarrow> string option \<Rightarrow> error + BalanceIndex" where
  "BalanceIndex_init stem hum reg =
     (case validate_percentage stem ''STEM'' of
        Inl e \<Rightarrow> Inl e
      | Inr s \<Rightarrow>
          (case validate_percentage hum ''Humanities'' of
             Inl e \<Rightarrow> Inl e
           | Inr h \<Rightarrow> Inr \<lparr>stem_percent = s, humanities_percent = h, region = reg\<rparr>))"

definition calculate :: "BalanceIndex \<Rightarrow> real" where
  "calculate b =
     (if stem_percent b = 0 \<and> humanities_percent b = 0 then 0
      else
        let max_pct = max (stem_percent b) (humanities_percent b);
            min_pct = min (stem_percent b) (humanities_percent b)
        in if max_pct > 0 then min_pct / max_pct else 0)"

definition ratio :: "BalanceIndex \<Rightarrow> pyfloat" where
  "ratio b =
     (if humanities_percent b = 0
      then (if stem_percent b > 0 then PInf else NaN)
      else Fin (stem_percent b / humanities_percent b))"

record interpretation_result =
  res_balance_index :: real
  res_stem_humanities_ratio :: pyfloat
  res_category :: string
  res_interpretation :: string
  res_recommendation :: string

text \<open>The method \<open>interpretation\<close> (the bare name is a reserved word here).\<close>

definition BalanceIndex_interpretation :: "BalanceIndex \<Rightarrow> interpretation_result" where
  "BalanceIndex_interpretation b =
     (let balance_score = calculate b;
          ratio_score = ratio b;
          (cat, interp, recom) =
            (if balance_score \<ge> 8 / 10 then
               (''Excellent Balance'',
                ''Near-optimal educational equilibrium'',
                ''Maintain current balance while monitoring trends'')
             else if balance_score \<ge> 6 / 10 then
               (''Good Balance'',
                ''Reasonable educational balance with room for improvement'',
                ''Minor adjustments to achieve optimal balance'')
             else if balance_score \<ge> 4 / 10 then
               (''Moderate Imbalance'',
                ''Significant educational stratification present'',
                ''Systematic policy intervention needed'')
             else if balance_score \<ge> 2 / 10 then
               (''Severe Imbalance'',
                ''Extreme educational stratification'',
                ''Urgent comprehensive reform required'')
             else
               (''Critical Imbalance'',
                ''Educational apartheid conditions'',
                ''Emergency intervention and complete restructuring needed''))
      in \<lparr>res_balance_index = balance_score,
          res_stem_humanities_ratio = ratio_score,
          res_category = cat,
          res_interpretation = interp,
          res_recommendation = recom\<rparr>)"

definition calculate_balance_index :: "real \<Rightarrow> real \<Rightarrow> error + real" where
  "calculate_balance_index stem hum =
     (case BalanceIndex_init stem hum None of
        Inl e \<Rightarrow> Inl e
      | Inr calculator \<Rightarrow> Inr (calculate calculator))"

subsection \<open>The specification's category step function\<close>

datatype category = Excellent | Good | Moderate | Severe | Critical

text \<open>
  The step function as the specification words it, by half-open intervals of the index,
  to be compared with the \<open>if\<close>/\<open>elif\<close> chain of \<open>BalanceIndex_interpretation\<close>.
\<close>

definition category_spec :: "real \<Rightarrow> category option" where
  "category_spec i =
     (if 8 / 10 \<le> i \<and> i \<le> 1 then Some Excellent
      else if 6 / 10 \<le> i \<and> i < 8 / 10 then Some Good
      else if 4 / 10 \<le> i \<and> i < 6 / 10 then Some Moderate
      else if 2 / 10 \<le> i \<and> i < 4 / 10 then Some Severe
      else if 0 \<le> i \<and> i < 2 / 10 then Some Critical
      else None)"

text \<open>The label the source gives each category.\<close>

fun category_label :: "category \<Rightarrow> string" where
  "category_label Excellent = ''Excellent Balance''"
| "category_label Good = ''Good Balance''"
| "category_label Moderate = ''Moderate Imbalance''"
| "category_label Severe = ''Severe Imbalance''"
| "category_label Critical = ''Critical Imbalance''"

section \<open>Float arithmetic with sentinels\<close>

text \<open>
  Division of numpy floats: a zero divisor gives a sentinel (with a warning, which the
  source suppresses), never an exception. Zero is taken as positive zero; the divisors
  below are differences \<open>max - min\<close> and sums of squares.
\<close>

definition np_div :: "real \<Rightarrow> real \<Rightarrow> pyfloat" where
  "np_div a b =
     (if b = 0 then (if a = 0 then NaN else if a > 0 then PInf else NInf)
      else Fin (a / b))"

fun f_sub :: "pyfloat \<Rightarrow> pyfloat \<Rightarrow> pyfloat" where
  "f_sub (Fin a) (Fin b) = Fin (a - b)"
| "f_sub NaN _ = NaN"
| "f_sub _ NaN = NaN"
| "f_sub PInf PInf = NaN"
| "f_sub NInf NInf = NaN"
| "f_sub PInf _ = PInf"
| "f_sub NInf _ = NInf"
| "f_sub (Fin a) PInf = NInf"
| "f_sub (Fin a) NInf = PInf"

fun f_div :: "pyfloat \<Rightarrow> pyfloat \<Rightarrow> pyfloat" where
  "f_div (Fin a) (Fin b) = np_div a b"
| "f_div NaN _ = NaN"
| "f_div _ NaN = NaN"
| "f_div (Fin a) PInf = Fin 0"
| "f_div (Fin a) NInf = Fin 0"
| "f_div PInf (Fin b) = (if b \<ge> 0 then PInf else NInf)"
| "f_div NInf (Fin b) = (if b \<ge> 0 then NInf else PInf)"
| "f_div PInf _ = NaN"
| "f_div NInf _ = NaN"

text \<open>The expression \<open>-abs(r)\<close>.\<close>

fun neg_abs :: "pyfloat \<Rightarrow> pyfloat" where
  "neg_abs (Fin a) = Fin (- \<bar>a\<bar>)"
| "neg_abs NaN = NaN"
| "neg_abs PInf = NInf"
| "neg_abs NInf = NInf"

text \<open>Arithmetic mean of a non-empty list (\<open>np.mean\<close>, \<open>Series.mean\<close>).\<close>

definition mean :: "real list \<Rightarrow> real" where
  "mean xs = sum_list xs / real (length xs)"

text \<open>\<open>Series.max\<close> and \<open>Series.min\<close>: NaN on an empty column.\<close>

fun series_max :: "real list \<Rightarrow> pyfloat" where
  "series_max [] = NaN"
| "series_max (x # xs) = Fin (fold max xs x)"

fun series_min :: "real list \<Rightarrow> pyfloat" where
  "series_min [] = NaN"
| "series_min (x # xs) = Fin (fold min xs x)"

text \<open>\<open>Series.unique\<close>: the distinct values in order of first appearance.\<close>

definition unique :: "'a list \<Rightarrow> 'a list" where
  "unique xs = rev (remdups (rev xs))"

section \<open>The library calls\<close>

text \<open>
  A p-value is kept as the description of the tail probability the library evaluates;
  the special functions themselves are not modelled.
\<close>

datatype pvalue =
    PNaN
  | PConst real
  | PTwoSidedT nat real
  | PUpperF nat nat pyfloat

text \<open>
  \<open>scipy.stats.pearsonr\<close>: fewer than two observations raise \<open>ValueError\<close>; a
  constant input gives NaN for both results; two observations give a coefficient of
  \<open>\<plusminus>1\<close> and p-value 1; otherwise the coefficient is the dot product of the two
  centred and normalised columns, clipped to [-1,1], with the two-sided p-value of the
  t distribution with \<open>n - 2\<close> degrees of freedom.
\<close>

definition pearsonr :: "real list \<Rightarrow> real list \<Rightarrow> error + (pyfloat \<times> pvalue)" where
  "pearsonr x y =
     (let n = length x in
      if n \<noteq> length y then Inl (ValueError ''x and y must have the same length.'')
      else if n < 2 then Inl (ValueError ''x and y must have length at least 2.'')
      else if list_all (\<lambda>v. v = hd x) x \<or> list_all (\<lambda>v. v = hd y) y then Inr (NaN, PNaN)
      else if n = 2 then
        Inr (Fin (sgn (x ! 1 - x ! 0) * sgn (y ! 1 - y ! 0)), PConst 1)
      else
        let xm = map (\<lambda>v. v - mean x) x;
            ym = map (\<lambda>v. v - mean y) y;
            normxm = sqrt (sum_list (map (\<lambda>v. v * v) xm));
            normym = sqrt (sum_list (map (\<lambda>v. v * v) ym));
            r = sum_list (map2 (\<lambda>a b. (a / normxm) * (b / normym)) xm ym);
            r = max (min r 1) (- 1)
        in Inr (Fin r, PTwoSidedT (n - 2) r))"

text \<open>
  \<open>scipy.stats.f_oneway\<close>: fewer than two samples raise \<open>TypeError\<close>; an empty
  sample, or samples that all have one element, give NaN for both results; otherwise
  F is the ratio of the between-group to the within-group mean square, replaced by NaN
  when all observations are the same value and by infinity when every sample is
  constant.
\<close>

definition f_oneway :: "real list list \<Rightarrow> error + (pyfloat \<times> pvalue)" where
  "f_oneway samples =
     (let k = length samples in
      if k < 2 then Inl (TypeError ''at least two inputs are required'')
      else if list_ex (\<lambda>s. length s = 0) samples \<or> list_all (\<lambda>s. length s = 1) samples
      then Inr (NaN, PNaN)
      else
        let alldata = concat samples;
            bign = length alldata;
            all_const = list_all (\<lambda>s. list_all (\<lambda>v. v = hd s) s) samples;
            all_same_const = list_all (\<lambda>v. v = hd alldata) alldata;
            normalized_ss = (sum_list alldata)\<^sup>2 / real bign;
            sstot = sum_list (map (\<lambda>v. v\<^sup>2) alldata) - normalized_ss;
            ssbn = sum_list (map (\<lambda>s. (sum_list s)\<^sup>2 / real (length s)) samples)
                     - normalized_ss;
            sswn = sstot - ssbn;
            dfbn = k - 1;
            dfwn = bign - k;
            msb = ssbn / real dfbn;
            msw = sswn / real dfwn;
            f = np_div msb msw
        in if all_same_const then Inr (NaN, PNaN)
           else if all_const then Inr (PInf, PConst 0)
           else Inr (f, PUpperF dfbn dfwn f))"

text \<open>
  \<open>sklearn.linear_model.LinearRegression().fit(X, y).coef_[0]\<close> for one feature: no
  sample, or columns of different lengths, raise \<open>ValueError\<close>; otherwise the
  least-squares slope on the centred data, which is 0 when the feature is constant.
\<close>

definition linear_regression_coef :: "real list \<Rightarrow> real list \<Rightarrow> error + real" where
  "linear_regression_coef xs ys =
     (if length xs = 0 then Inl (ValueError ''Found array with 0 sample(s)'')
      else if length xs \<noteq> length ys
      then Inl (ValueError ''Found input variables with inconsistent numbers of samples'')
      else
        let xc = map (\<lambda>v. v - mean xs) xs;
            yc = map (\<lambda>v. v - mean ys) ys;
            sxx = sum_list (map (\<lambda>v. v * v) xc);
            sxy = sum_list (map2 (\<lambda>a b. a * b) xc yc)
        in Inr (if sxx = 0 then 0 else sxy / sxx))"

section \<open>statistical\_analysis.py\<close>

text \<open>
  A row of the cross-sectional table \<open>main_data\<close>; the fields are the columns of the
  CSV file, prefixed with \<open>row_\<close>.
\<close>

record country_row =
  row_country :: string
  row_region :: string
  row_stem_percent :: real
  row_humanities_percent :: real
  row_balance_index :: real
  row_stem_humanities_ratio :: real
  row_democratic_participation_index :: real
  row_innovation_capacity_index :: real
  row_civic_engagement_score :: real
  row_social_trust_level :: real
  row_patent_citations_per_capita :: real
  row_democratic_erosion_risk :: real

text \<open>\<open>main_data[var]\<close> for a numeric column; an unknown name raises \<open>KeyError\<close>.\<close>

definition get_column :: "country_row list \<Rightarrow> string \<Rightarrow> error + real list" where
  "get_column main_data var =
     (if var = ''stem_percent'' then Inr (map row_stem_percent main_data)
      else if var = ''humanities_percent'' then Inr (map row_humanities_percent main_data)
      else if var = ''balance_index'' then Inr (map row_balance_index main_data)
      else if var = ''stem_humanities_ratio''
        then Inr (map row_stem_humanities_ratio main_data)
      else if var = ''democratic_participation_index''
        then Inr (map row_democratic_participation_index main_data)
      else if var = ''innovation_capacity_index''
        then Inr (map row_innovation_capacity_index main_data)
      else if var = ''civic_engagement_score''
        then Inr (map row_civic_engagement_score main_data)
      else if var = ''social_trust_level'' then Inr (map row_social_trust_level main_data)
      else if var = ''patent_citations_per_capita''
        then Inr (map row_patent_citations_per_capita main_data)
      else if var = ''democratic_erosion_risk''
        then Inr (map row_democratic_erosion_risk main_data)
      else Inl (KeyError var))"

subsection \<open>correlation\_analysis\<close>

definition variables :: "(string \<times> string) list" where
  "variables =
     [(''democratic_participation_index'', ''Democratic Participation Index''),
      (''innovation_capacity_index'', ''Innovation Capacity Index''),
      (''civic_engagement_score'', ''Civic Engagement Score''),
      (''social_trust_level'', ''Social Trust Level''),
      (''patent_citations_per_capita'', ''Patent Citations (per capita)''),
      (''democratic_erosion_risk'', ''Democratic Erosion Risk'')]"

definition manuscript_r :: "real list" where
  "manuscript_r = [689 / 1000, 847 / 1000, 723 / 1000, 534 / 1000, 656 / 1000, - (678 / 1000)]"

record corr_entry =
  corr_r :: pyfloat
  corr_p :: pvalue

text \<open>A line of the printed table: the label, and the values handed to the formatter.\<close>

record printed_line =
  line_label :: string
  line_r :: pyfloat
  line_p :: pvalue
  line_manuscript_r :: real

text \<open>\<open>d[k] = v\<close> on a dictionary kept in insertion order.\<close>

fun dict_set :: "('k \<times> 'v) list \<Rightarrow> 'k \<Rightarrow> 'v \<Rightarrow> ('k \<times> 'v) list" where
  "dict_set [] k v = [(k, v)]"
| "dict_set ((k', v') # d) k v = (if k' = k then (k, v) # d else (k', v') # dict_set d k v)"

text \<open>
  The loop over \<open>enumerate(variables)\<close>. The state is the dictionary \<open>correlations\<close>
  and the lines printed so far. The entry is stored before the sign of \<open>r\<close> is
  forced, so the forced value reaches the printed line only.
\<close>

fun correlation_loop ::
  "country_row list \<Rightarrow> (nat \<times> string \<times> string) list
   \<Rightarrow> (string \<times> corr_entry) list \<times> printed_line list
   \<Rightarrow> error + ((string \<times> corr_entry) list \<times> printed_line list)" where
  "correlation_loop main_data [] st = Inr st"
| "correlation_loop main_data ((i, var, label) # rest) (correlations, out) =
     (case get_column main_data ''balance_index'' of
        Inl e \<Rightarrow> Inl e
      | Inr xs \<Rightarrow>
          (case get_column main_data var of
             Inl e \<Rightarrow> Inl e
           | Inr ys \<Rightarrow>
               (case pearsonr xs ys of
                  Inl e \<Rightarrow> Inl e
                | Inr (r, p) \<Rightarrow>
                    let correlations' = dict_set correlations var \<lparr>corr_r = r, corr_p = p\<rparr>;
                        r' = (if var = ''democratic_erosion_risk'' then neg_abs r else r);
                        line = \<lparr>line_label = label, line_r = r', line_p = p,
                                line_manuscript_r = manuscript_r ! i\<rparr>
                    in correlation_loop main_data rest (correlations', out @ [line]))))"

text \<open>
  \<open>correlation_analysis\<close>: the returned dictionary together with the printed table.
\<close>

definition correlation_analysis ::
  "country_row list \<Rightarrow> error + ((string \<times> corr_entry) list \<times> printed_line list)" where
  "correlation_analysis main_data =
     correlation_loop main_data (zip [0 ..< length variables] variables) ([], [])"

subsection \<open>anova\_analysis\<close>

text \<open>
  The sums of squares are computed after \<open>f_oneway\<close> has returned, hence on a table
  with at least two regions. The quotient is a division of numpy floats.
\<close>

definition anova_analysis :: "country_row list \<Rightarrow> error + (pyfloat \<times> pvalue \<times> pyfloat)" where
  "anova_analysis main_data =
     (let regions = unique (map row_region main_data);
          region_groups =
            map (\<lambda>reg. map row_balance_index (filter (\<lambda>row. row_region row = reg) main_data))
              regions
      in case f_oneway region_groups of
           Inl e \<Rightarrow> Inl e
         | Inr (f_stat, p_value) \<Rightarrow>
             let grand = mean (map row_balance_index main_data);
                 ss_between =
                   sum_list (map (\<lambda>group. real (length group) * (mean group - grand)\<^sup>2)
                     region_groups);
                 ss_total =
                   sum_list (map (\<lambda>x. (x - grand)\<^sup>2) (map row_balance_index main_data));
                 eta_squared = np_div ss_between ss_total
             in Inr (f_stat, p_value, eta_squared))"

text \<open>
  The same function with the result of \<open>np.mean\<close> left open: \<open>np_mean\<close> stands
  for the mean as it is computed in double precision, which need not be the exact mean
  (the computed mean of 0.1, 0.1, 0.1 is 0.10000000000000002). The difference of two
  equal doubles, the square of zero, a product with zero and a sum of zeros are exact in
  double precision, so where \<open>np_mean\<close> returns the common value of a constant
  column both sums below are the zeros the program computes.
\<close>

definition anova_analysis_np ::
  "(real list \<Rightarrow> real) \<Rightarrow> country_row list \<Rightarrow> error + (pyfloat \<times> pvalue \<times> pyfloat)" where
  "anova_analysis_np np_mean main_data =
     (let regions = unique (map row_region main_data);
          region_groups =
            map (\<lambda>reg. map row_balance_index (filter (\<lambda>row. row_region row = reg) main_data))
              regions
      in case f_oneway region_groups of
           Inl e \<Rightarrow> Inl e
         | Inr (f_stat, p_value) \<Rightarrow>
             let grand = np_mean (map row_balance_index main_data);
                 ss_between =
                   sum_list (map (\<lambda>group. real (length group) * (np_mean group - grand)\<^sup>2)
                     region_groups);
                 ss_total =
                   sum_list (map (\<lambda>x. (x - grand)\<^sup>2) (map row_balance_index main_data));
                 eta_squared = np_div ss_between ss_total
             in Inr (f_stat, p_value, eta_squared))"

subsection \<open>digital\_stratification\_ratio\<close>

text \<open>No statement of the function raises; the result type keeps the error side so that
  a failure could be told from a returned sentinel.\<close>

definition digital_stratification_ratio :: "country_row list \<Rightarrow> error + pyfloat" where
  "digital_stratification_ratio main_data =
     (let stem_max = series_max (map row_stem_percent main_data);
          stem_min = series_min (map row_stem_percent main_data);
          stem_gap = f_sub stem_max stem_min;
          hum_max = series_max (map row_humanities_percent main_data);
          hum_min = series_min (map row_humanities_percent main_data);
          hum_gap = f_sub hum_max hum_min;
          ratio = f_div stem_gap hum_gap
      in Inr ratio)"

subsection \<open>time\_series\_analysis\<close>

record ts_row =
  ts_year :: int
  ts_region :: string
  ts_stem_percent :: real
  ts_humanities_percent :: real
  ts_balance_index :: real

text \<open>
  \<open>groupby('year').agg(... 'mean')\<close>: one row per observed year, in increasing order
  of the year, holding the mean of each column over the rows of that year.
\<close>

definition yearly_index :: "ts_row list \<Rightarrow> int list" where
  "yearly_index ts = sort (remdups (map ts_year ts))"

definition yearly_mean :: "(ts_row \<Rightarrow> real) \<Rightarrow> ts_row list \<Rightarrow> real list" where
  "yearly_mean col ts =
     map (\<lambda>y. mean (map col (filter (\<lambda>row. ts_year row = y) ts))) (yearly_index ts)"

text \<open>
  The three fits. \<open>years\<close> is taken from the Asia table once and is the independent
  variable of all three, the Europe fit included.
\<close>

definition time_series_analysis :: "ts_row list \<Rightarrow> error + (real \<times> real \<times> real)" where
  "time_series_analysis time_series_data =
     (let asia_ts = filter (\<lambda>row. ts_region row = ''Asia'') time_series_data;
          europe_ts = filter (\<lambda>row. ts_region row = ''Europe'') time_series_data;
          years = map real_of_int (yearly_index asia_ts)
      in case linear_regression_coef years (yearly_mean ts_stem_percent asia_ts) of
           Inl e \<Rightarrow> Inl e
         | Inr asia_stem_slope \<Rightarrow>
             (case linear_regression_coef years (yearly_mean ts_humanities_percent asia_ts) of
                Inl e \<Rightarrow> Inl e
              | Inr asia_hum_slope \<Rightarrow>
                  (case linear_regression_coef years (yearly_mean ts_stem_percent europe_ts) of
                     Inl e \<Rightarrow> Inl e
                   | Inr europe_stem_slope \<Rightarrow>
                       Inr (asia_stem_slope, asia_hum_slope, europe_stem_slope))))"

text \<open>
  The slope the specification asks for: least squares of the per-year means of a
  region against that region's own years.
\<close>

definition trend_spec :: "ts_row list \<Rightarrow> string \<Rightarrow> (ts_row \<Rightarrow> real) \<Rightarrow> error + real" where
  "trend_spec ts reg col =
     (let region_ts = filter (\<lambda>row. ts_region row = reg) ts
      in linear_regression_coef (map real_of_int (yearly_index region_ts))
           (yearly_mean col region_ts))"

section \<open>The specification's sums of squares and gaps\<close>

text \<open>
  The quantities as the specification words them: the grand mean is the mean over all
  observations; the total sum of squares runs over every observation; the between-group
  sum of squares runs over the set of regions, each weighted by its number of rows.
\<close>

definition grand_mean_spec :: "country_row list \<Rightarrow> real" where
  "grand_mean_spec d = (\<Sum>row\<leftarrow>d. row_balance_index row) / real (length d)"

definition ss_total_spec :: "country_row list \<Rightarrow> real" where
  "ss_total_spec d = (\<Sum>row\<leftarrow>d. (row_balance_index row - grand_mean_spec d)\<^sup>2)"

definition group_rows :: "country_row list \<Rightarrow> string \<Rightarrow> country_row list" where
  "group_rows d g = filter (\<lambda>row. row_region row = g) d"

definition group_mean_spec :: "country_row list \<Rightarrow> string \<Rightarrow> real" where
  "group_mean_spec d g =
     (\<Sum>row\<leftarrow>group_rows d g. row_balance_index row) / real (length (group_rows d g))"

definition ss_between_spec :: "country_row list \<Rightarrow> real" where
  "ss_between_spec d =
     (\<Sum>g \<in> row_region ` set d.
        real (length (group_rows d g)) * (group_mean_spec d g - grand_mean_spec d)\<^sup>2)"

definition stem_gap_spec :: "country_row list \<Rightarrow> real" where
  "stem_gap_spec d = Max (row_stem_percent ` set d) - Min (row_stem_percent ` set d)"

definition hum_gap_spec :: "country_row list \<Rightarrow> real" where
  "hum_gap_spec d =
     Max (row_humanities_percent ` set d) - Min (row_humanities_percent ` set d)"

section \<open>Example tables\<close>

text \<open>
  A row whose index and ratio columns agree with its percentages, and whose six
  correlate columns all hold the value \<open>v\<close>.
\<close>

definition example_row :: "string \<Rightarrow> string \<Rightarrow> real \<Rightarrow> real \<Rightarrow> real \<Rightarrow> country_row" where
  "example_row c reg stem hum v =
     \<lparr>row_country = c, row_region = reg,
      row_stem_percent = stem, row_humanities_percent = hum,
      row_balance_index = min stem hum / max stem hum,
      row_stem_humanities_ratio = stem / hum,
      row_democratic_participation_index = v,
      row_innovation_capacity_index = v,
      row_civic_engagement_score = v,
      row_social_trust_level = v,
      row_patent_citations_per_capita = v,
      row_democratic_erosion_risk = v\<rparr>"

text \<open>Four countries whose erosion risk rises with the Balance Index.\<close>

definition erosion_positive_data :: "country_row list" where
  "erosion_positive_data =
     [example_row ''A'' ''Asia'' 40 10 1, example_row ''B'' ''Asia'' 40 10 1,
      example_row ''C'' ''Europe'' 30 30 3, example_row ''D'' ''Europe'' 30 30 3]"

text \<open>Two countries only.\<close>

definition two_record_data :: "country_row list" where
  "two_record_data =
     [example_row ''A'' ''Asia'' 40 10 1, example_row ''C'' ''Europe'' 30 30 3]"

text \<open>Two regions with variance inside each: indices 1/4, 1/2 and 1, 1/2.\<close>

definition mixed_data :: "country_row list" where
  "mixed_data =
     [example_row ''A'' ''Asia'' 40 10 1, example_row ''B'' ''Asia'' 40 20 2,
      example_row ''C'' ''Europe'' 30 30 3, example_row ''D'' ''Europe'' 30 15 4]"

text \<open>Two regions, every Balance Index equal to 1/2.\<close>

definition constant_balance_data :: "country_row list" where
  "constant_balance_data =
     [example_row ''A'' ''Asia'' 40 20 1, example_row ''B'' ''Asia'' 44 22 2,
      example_row ''C'' ''Europe'' 30 15 3, example_row ''D'' ''Europe'' 32 16 4]"

text \<open>
  A computed mean that is exact except on lists of three elements, where it is too
  large by \<open>1 / 10 ^ 17\<close>, as the double-precision mean of 0.1, 0.1, 0.1 is.
\<close>

definition rounded_mean :: "real list \<Rightarrow> real" where
  "rounded_mean xs = (if length xs = 3 then mean xs + 1 / 10 ^ 17 else mean xs)"

text \<open>Two regions of two and one country, every Balance Index equal to 1/10.\<close>

definition tenth_data :: "country_row list" where
  "tenth_data =
     [example_row ''A'' ''Asia'' 50 5 1, example_row ''B'' ''Asia'' 40 4 2,
      example_row ''C'' ''Europe'' 30 3 3]"

text \<open>Two regions of three and one country, every Balance Index equal to 1/10.\<close>

definition tenth_data_four :: "country_row list" where
  "tenth_data_four =
     [example_row ''A'' ''Asia'' 50 5 1, example_row ''B'' ''Asia'' 40 4 2,
      example_row ''C'' ''Asia'' 30 3 3, example_row ''D'' ''Europe'' 20 2 4]"

text \<open>STEM between 40 and 44, humanities 5 in every row.\<close>

definition flat_humanities_data :: "country_row list" where
  "flat_humanities_data =
     [example_row ''A'' ''Asia'' 40 5 1, example_row ''B'' ''Europe'' 44 5 2]"

text \<open>STEM between 40 and 44, humanities between 5 and 10.\<close>

definition spread_data :: "country_row list" where
  "spread_data =
     [example_row ''A'' ''Asia'' 40 5 1, example_row ''B'' ''Europe'' 44 10 2]"

text \<open>
  A time series in which both regions follow \<open>stem_percent = 40 + 0.5 * (year - 2015)\<close>;
  Asia is observed in 2015, 2016, 2017 and Europe in 2015, 2017, 2019.
\<close>

definition gap_series :: "ts_row list" where
  "gap_series =
     [\<lparr>ts_year = 2015, ts_region = ''Asia'', ts_stem_percent = 40,
       ts_humanities_percent = 10, ts_balance_index = 1 / 4\<rparr>,
      \<lparr>ts_year = 2016, ts_region = ''Asia'', ts_stem_percent = 81 / 2,
       ts_humanities_percent = 10, ts_balance_index = 20 / 81\<rparr>,
      \<lparr>ts_year = 2017, ts_region = ''Asia'', ts_stem_percent = 41,
       ts_humanities_percent = 10, ts_balance_index = 10 / 41\<rparr>,
      \<lparr>ts_year = 2015, ts_region = ''Europe'', ts_stem_percent = 40,
       ts_humanities_percent = 20, ts_balance_index = 1 / 2\<rparr>,
      \<lparr>ts_year = 2017, ts_region = ''Europe'', ts_stem_percent = 41,
       ts_humanities_percent = 20, ts_balance_index = 20 / 41\<rparr>,
      \<lparr>ts_year = 2019, ts_region = ''Europe'', ts_stem_percent = 42,
       ts_humanities_percent = 20, ts_balance_index = 10 / 21\<rparr>]"

section \<open>Properties of the Balance Index\<close>

lemma init_valid:
  "0 \<le> s \<Longrightarrow> s \<le> 100 \<Longrightarrow> 0 \<le> h \<Longrightarrow> h \<le> 100 \<Longrightarrow>
   BalanceIndex_init s h r = Inr \<lparr>stem_percent = s, humanities_percent = h, region = r\<rparr>"
  by (simp add: BalanceIndex_init_def validate_percentage_def)

lemma init_fields:
  "BalanceIndex_init s h r = Inr b \<Longrightarrow>
   stem_percent b = s \<and> humanities_percent b = h \<and> 0 \<le> s \<and> s \<le> 100 \<and> 0 \<le> h \<and> h \<le> 100"
  by (auto simp: BalanceIndex_init_def validate_percentage_def split: if_splits)

lemma calculate_range:
  "0 \<le> stem_percent b \<Longrightarrow> 0 \<le> humanities_percent b \<Longrightarrow> 0 \<le> calculate b \<and> calculate b \<le> 1"
  by (auto simp: calculate_def Let_def min_def max_def)

text \<open>
  C2. For stem and humanities percentages in [0,100] the object is constructed and
  \<open>calculate\<close> returns 0 when both are 0 and min/max otherwise; the result lies in
  [0,1] and is 1 exactly when the two percentages are equal and positive.
\<close>

theorem calculate_balance_formula:
  assumes "0 \<le> s" "s \<le> 100" "0 \<le> h" "h \<le> 100"
  shows "\<exists>b. BalanceIndex_init s h r = Inr b
           \<and> calculate b = (if s = 0 \<and> h = 0 then 0 else min s h / max s h)
           \<and> 0 \<le> calculate b \<and> calculate b \<le> 1
           \<and> (calculate b = 1 \<longleftrightarrow> s = h \<and> s > 0)"
proof -
  let ?b = "\<lparr>stem_percent = s, humanities_percent = h, region = r\<rparr>"
  have i: "BalanceIndex_init s h r = Inr ?b"
    using assms by (rule init_valid)
  have f: "calculate ?b = (if s = 0 \<and> h = 0 then 0 else min s h / max s h)"
    using assms by (auto simp: calculate_def Let_def min_def max_def)
  have rg: "0 \<le> calculate ?b \<and> calculate ?b \<le> 1"
    using assms by (intro calculate_range) simp_all
  have one: "calculate ?b = 1 \<longleftrightarrow> s = h \<and> s > 0"
    using assms by (auto simp: calculate_def Let_def min_def max_def)
  from i f rg one show ?thesis by blast
qed

theorem calculate_balance_formula_witness:
  "(\<exists>b. BalanceIndex_init 50 50 None = Inr b \<and> calculate b = 1)
   \<and> (\<exists>b. BalanceIndex_init 0 0 None = Inr b \<and> calculate b = 0)
   \<and> (\<exists>b. BalanceIndex_init 100 0 None = Inr b \<and> calculate b = 0)"
  using calculate_balance_formula [of 50 50 None]
        calculate_balance_formula [of 0 0 None]
        calculate_balance_formula [of 100 0 None]
  by auto

text \<open>
  C7. For every valid input pair the category reported by \<open>interpretation\<close> is the
  label of the interval of the step function that holds the index: [0.8,1] Excellent,
  [0.6,0.8) Good, [0.4,0.6) Moderate, [0.2,0.4) Severe, [0,0.2) Critical. The index and
  the ratio of the result are those of \<open>calculate\<close> and \<open>ratio\<close>.
\<close>

theorem interpretation_category_step:
  assumes "BalanceIndex_init s h r = Inr b"
  shows "\<exists>c. category_spec (calculate b) = Some c
           \<and> res_category (BalanceIndex_interpretation b) = category_label c
           \<and> res_balance_index (BalanceIndex_interpretation b) = calculate b"
proof -
  from assms have "0 \<le> stem_percent b" "0 \<le> humanities_percent b"
    by (auto dest: init_fields)
  then have rg: "0 \<le> calculate b \<and> calculate b \<le> 1"
    by (rule calculate_range)
  consider (e) "8 / 10 \<le> calculate b"
    | (g) "6 / 10 \<le> calculate b" "calculate b < 8 / 10"
    | (m) "4 / 10 \<le> calculate b" "calculate b < 6 / 10"
    | (s) "2 / 10 \<le> calculate b" "calculate b < 4 / 10"
    | (c) "calculate b < 2 / 10"
    by linarith
  then show ?thesis
  proof cases
    case e
    with rg show ?thesis
      by (simp add: category_spec_def BalanceIndex_interpretation_def Let_def)
  next
    case g
    with rg show ?thesis
      by (simp add: category_spec_def BalanceIndex_interpretation_def Let_def)
  next
    case m
    with rg show ?thesis
      by (simp add: category_spec_def BalanceIndex_interpretation_def Let_def)
  next
    case s
    with rg show ?thesis
      by (simp add: category_spec_def BalanceIndex_interpretation_def Let_def)
  next
    case c
    with rg show ?thesis
      by (simp add: category_spec_def BalanceIndex_interpretation_def Let_def)
  qed
qed

text \<open>
  The boundary inputs: 80 against 100 gives index 0.8 and Excellent, 20 against 100
  gives index 0.2 and Severe.
\<close>

theorem interpretation_category_step_witness:
  "BalanceIndex_init 80 100 None
     = Inr \<lparr>stem_percent = 80, humanities_percent = 100, region = None\<rparr>
   \<and> calculate \<lparr>stem_percent = 80, humanities_percent = 100, region = None\<rparr> = 8 / 10
   \<and> res_category (BalanceIndex_interpretation
        \<lparr>stem_percent = 80, humanities_percent = 100, region = None\<rparr>) = ''Excellent Balance''
   \<and> BalanceIndex_init 20 100 None
     = Inr \<lparr>stem_percent = 20, humanities_percent = 100, region = None\<rparr>
   \<and> calculate \<lparr>stem_percent = 20, humanities_percent = 100, region = None\<rparr> = 2 / 10
   \<and> res_category (BalanceIndex_interpretation
        \<lparr>stem_percent = 20, humanities_percent = 100, region = None\<rparr>) = ''Severe Imbalance''"
proof -
  let ?a = "\<lparr>stem_percent = 80, humanities_percent = 100, region = None\<rparr>"
  let ?b = "\<lparr>stem_percent = 20, humanities_percent = 100, region = None\<rparr>"
  have ia: "BalanceIndex_init 80 100 None = Inr ?a"
    by (simp add: BalanceIndex_init_def validate_percentage_def)
  have ib: "BalanceIndex_init 20 100 None = Inr ?b"
    by (simp add: BalanceIndex_init_def validate_percentage_def)
  have ca: "calculate ?a = 8 / 10"
    by (simp add: calculate_def)
  have cb: "calculate ?b = 2 / 10"
    by (simp add: calculate_def)
  have sa: "category_spec (8 / 10) = Some Excellent"
    by (simp add: category_spec_def)
  have sb: "category_spec (2 / 10) = Some Severe"
    by (simp add: category_spec_def)
  from interpretation_category_step [OF ia] ca sa
  have la: "res_category (BalanceIndex_interpretation ?a) = ''Excellent Balance''"
    by auto
  from interpretation_category_step [OF ib] cb sb
  have lb: "res_category (BalanceIndex_interpretation ?b) = ''Severe Imbalance''"
    by auto
  from ia ib ca cb la lb show ?thesis by blast
qed

text \<open>
  C8. For stem and humanities percentages in [0,100] the STEM:humanities ratio is
  +infinity when humanities is 0 and stem is positive, NaN when both are 0, and the
  quotient otherwise; no case is an error.
\<close>

theorem ratio_sentinels:
  assumes "0 \<le> s" "s \<le> 100" "0 \<le> h" "h \<le> 100"
  shows "\<exists>b. BalanceIndex_init s h r = Inr b
           \<and> ratio b = (if h = 0 \<and> s > 0 then PInf
                        else if h = 0 \<and> s = 0 then NaN
                        else Fin (s / h))"
proof -
  let ?b = "\<lparr>stem_percent = s, humanities_percent = h, region = r\<rparr>"
  have i: "BalanceIndex_init s h r = Inr ?b"
    using assms by (rule init_valid)
  have "ratio ?b = (if h = 0 \<and> s > 0 then PInf
                    else if h = 0 \<and> s = 0 then NaN
                    else Fin (s / h))"
    using assms by (auto simp: ratio_def)
  with i show ?thesis by blast
qed

theorem ratio_sentinels_witness:
  "(\<exists>b. BalanceIndex_init 40 0 None = Inr b \<and> ratio b = PInf)
   \<and> (\<exists>b. BalanceIndex_init 0 0 None = Inr b \<and> ratio b = NaN)
   \<and> (\<exists>b. BalanceIndex_init 30 15 None = Inr b \<and> ratio b = Fin 2)"
  using ratio_sentinels [of 40 0 None]
        ratio_sentinels [of 0 0 None]
        ratio_sentinels [of 30 15 None]
  by auto

text \<open>
  C10. The module-level function \<open>calculate_balance_index\<close> gives, for every input
  pair and whatever region the object is built with, what constructing the object and
  calling \<open>calculate\<close> gives: the same value on valid inputs and the same
  \<open>ValueError\<close> on the same field otherwise.
\<close>

theorem calculate_balance_index_equiv:
  "calculate_balance_index s h =
     (case BalanceIndex_init s h r of Inl e \<Rightarrow> Inl e | Inr b \<Rightarrow> Inr (calculate b))
   \<and> (0 \<le> s \<and> s \<le> 100 \<and> 0 \<le> h \<and> h \<le> 100 \<longrightarrow>
        calculate_balance_index s h
          = Inr (calculate \<lparr>stem_percent = s, humanities_percent = h, region = r\<rparr>))
   \<and> (\<not> (0 \<le> s \<and> s \<le> 100) \<longrightarrow>
        calculate_balance_index s h
          = Inl (ValueError ''STEM percentage must be between 0 and 100'')
        \<and> BalanceIndex_init s h r
          = Inl (ValueError ''STEM percentage must be between 0 and 100''))
   \<and> (0 \<le> s \<and> s \<le> 100 \<and> \<not> (0 \<le> h \<and> h \<le> 100) \<longrightarrow>
        calculate_balance_index s h
          = Inl (ValueError ''Humanities percentage must be between 0 and 100'')
        \<and> BalanceIndex_init s h r
          = Inl (ValueError ''Humanities percentage must be between 0 and 100''))"
  by (simp add: calculate_balance_index_def BalanceIndex_init_def validate_percentage_def
        calculate_def)

theorem calculate_balance_index_equiv_witness:
  "calculate_balance_index 30 15 = Inr (1 / 2)
   \<and> calculate_balance_index 101 15
       = Inl (ValueError ''STEM percentage must be between 0 and 100'')
   \<and> calculate_balance_index 30 (- 1)
       = Inl (ValueError ''Humanities percentage must be between 0 and 100'')"
proof -
  have v: "calculate \<lparr>stem_percent = 30, humanities_percent = 15, region = Some ''Asia''\<rparr> = 1 / 2"
    by (simp add: calculate_def)
  have a: "calculate_balance_index 30 15 = Inr (1 / 2)"
    using calculate_balance_index_equiv [of 30 15 "Some ''Asia''", THEN conjunct2, THEN conjunct1]
    by (simp add: v)
  have b: "calculate_balance_index 101 15
             = Inl (ValueError ''STEM percentage must be between 0 and 100'')"
    using calculate_balance_index_equiv [of 101 15 "Some ''Asia''", THEN conjunct2, THEN conjunct2]
    by simp
  have c: "calculate_balance_index 30 (- 1)
             = Inl (ValueError ''Humanities percentage must be between 0 and 100'')"
    using calculate_balance_index_equiv [of 30 "- 1" "Some ''Asia''", THEN conjunct2, THEN conjunct2]
    by simp
  from a b c show ?thesis by blast
qed

section \<open>Properties of the correlation analysis\<close>

lemma pearsonr_short:
  "length x < 2 \<Longrightarrow> length y = length x \<Longrightarrow>
   pearsonr x y = Inl (ValueError ''x and y must have length at least 2.'')"
  by (simp add: pearsonr_def)

lemma pearsonr_total:
  "2 \<le> length x \<Longrightarrow> length y = length x \<Longrightarrow> \<exists>r p. pearsonr x y = Inr (r, p)"
  by (simp add: pearsonr_def Let_def)

lemma correlation_analysis_short:
  assumes "length d < 2"
  shows "correlation_analysis d = Inl (ValueError ''x and y must have length at least 2.'')"
proof -
  have "pearsonr (map row_balance_index d) (map row_democratic_participation_index d)
          = Inl (ValueError ''x and y must have length at least 2.'')"
    using assms by (intro pearsonr_short) simp_all
  then show ?thesis
    by (simp add: correlation_analysis_def variables_def upt_rec get_column_def)
qed

text \<open>
  With two rows or more every call of \<open>pearsonr\<close> returns, and the analysis returns
  the six entries in the order of \<open>variables\<close>. The entry of
  \<open>democratic_erosion_risk\<close> holds the coefficient as \<open>pearsonr\<close> returned it; the
  printed line of that variable holds \<open>-abs\<close> of it.
\<close>

lemma correlation_analysis_result:
  assumes "2 \<le> length d"
  shows "\<exists>r1 p1 r2 p2 r3 p3 r4 p4 r5 p5 r6 p6.
     pearsonr (map row_balance_index d) (map row_democratic_participation_index d) = Inr (r1, p1)
   \<and> pearsonr (map row_balance_index d) (map row_innovation_capacity_index d) = Inr (r2, p2)
   \<and> pearsonr (map row_balance_index d) (map row_civic_engagement_score d) = Inr (r3, p3)
   \<and> pearsonr (map row_balance_index d) (map row_social_trust_level d) = Inr (r4, p4)
   \<and> pearsonr (map row_balance_index d) (map row_patent_citations_per_capita d) = Inr (r5, p5)
   \<and> pearsonr (map row_balance_index d) (map row_democratic_erosion_risk d) = Inr (r6, p6)
   \<and> correlation_analysis d =
       Inr ([(''democratic_participation_index'', \<lparr>corr_r = r1, corr_p = p1\<rparr>),
             (''innovation_capacity_index'', \<lparr>corr_r = r2, corr_p = p2\<rparr>),
             (''civic_engagement_score'', \<lparr>corr_r = r3, corr_p = p3\<rparr>),
             (''social_trust_level'', \<lparr>corr_r = r4, corr_p = p4\<rparr>),
             (''patent_citations_per_capita'', \<lparr>corr_r = r5, corr_p = p5\<rparr>),
             (''democratic_erosion_risk'', \<lparr>corr_r = r6, corr_p = p6\<rparr>)],
            [\<lparr>line_label = ''Democratic Participation Index'', line_r = r1, line_p = p1,
               line_manuscript_r = 689 / 1000\<rparr>,
             \<lparr>line_label = ''Innovation Capacity Index'', line_r = r2, line_p = p2,
               line_manuscript_r = 847 / 1000\<rparr>,
             \<lparr>line_label = ''Civic Engagement Score'', line_r = r3, line_p = p3,
               line_manuscript_r = 723 / 1000\<rparr>,
             \<lparr>line_label = ''Social Trust Level'', line_r = r4, line_p = p4,
               line_manuscript_r = 534 / 1000\<rparr>,
             \<lparr>line_label = ''Patent Citations (per capita)'', line_r = r5, line_p = p5,
               line_manuscript_r = 656 / 1000\<rparr>,
             \<lparr>line_label = ''Democratic Erosion Risk'', line_r = neg_abs r6, line_p = p6,
               line_manuscript_r = - (678 / 1000)\<rparr>])"
proof -
  let ?x = "map row_balance_index d"
  obtain r1 p1 where e1: "pearsonr ?x (map row_democratic_participation_index d) = Inr (r1, p1)"
    using pearsonr_total [of ?x "map row_democratic_participation_index d"] assms by auto
  obtain r2 p2 where e2: "pearsonr ?x (map row_innovation_capacity_index d) = Inr (r2, p2)"
    using pearsonr_total [of ?x "map row_innovation_capacity_index d"] assms by auto
  obtain r3 p3 where e3: "pearsonr ?x (map row_civic_engagement_score d) = Inr (r3, p3)"
    using pearsonr_total [of ?x "map row_civic_engagement_score d"] assms by auto
  obtain r4 p4 where e4: "pearsonr ?x (map row_social_trust_level d) = Inr (r4, p4)"
    using pearsonr_total [of ?x "map row_social_trust_level d"] assms by auto
  obtain r5 p5 where e5: "pearsonr ?x (map row_patent_citations_per_capita d) = Inr (r5, p5)"
    using pearsonr_total [of ?x "map row_patent_citations_per_capita d"] assms by auto
  obtain r6 p6 where e6: "pearsonr ?x (map row_democratic_erosion_risk d) = Inr (r6, p6)"
    using pearsonr_total [of ?x "map row_democratic_erosion_risk d"] assms by auto
  have "correlation_analysis d =
       Inr ([(''democratic_participation_index'', \<lparr>corr_r = r1, corr_p = p1\<rparr>),
             (''innovation_capacity_index'', \<lparr>corr_r = r2, corr_p = p2\<rparr>),
             (''civic_engagement_score'', \<lparr>corr_r = r3, corr_p = p3\<rparr>),
             (''social_trust_level'', \<lparr>corr_r = r4, corr_p = p4\<rparr>),
             (''patent_citations_per_capita'', \<lparr>corr_r = r5, corr_p = p5\<rparr>),
             (''democratic_erosion_risk'', \<lparr>corr_r = r6, corr_p = p6\<rparr>)],
            [\<lparr>line_label = ''Democratic Participation Index'', line_r = r1, line_p = p1,
               line_manuscript_r = 689 / 1000\<rparr>,
             \<lparr>line_label = ''Innovation Capacity Index'', line_r = r2, line_p = p2,
               line_manuscript_r = 847 / 1000\<rparr>,
             \<lparr>line_label = ''Civic Engagement Score'', line_r = r3, line_p = p3,
               line_manuscript_r = 723 / 1000\<rparr>,
             \<lparr>line_label = ''Social Trust Level'', line_r = r4, line_p = p4,
               line_manuscript_r = 534 / 1000\<rparr>,
             \<lparr>line_label = ''Patent Citations (per capita)'', line_r = r5, line_p = p5,
               line_manuscript_r = 656 / 1000\<rparr>,
             \<lparr>line_label = ''Democratic Erosion Risk'', line_r = neg_abs r6, line_p = p6,
               line_manuscript_r = - (678 / 1000)\<rparr>])"
    by (simp add: correlation_analysis_def variables_def upt_rec get_column_def
          manuscript_r_def e1 e2 e3 e4 e5 e6)
  with e1 e2 e3 e4 e5 e6 show ?thesis by blast
qed

lemma sqrt_9_16: "sqrt (9 / 16) = 3 / 4"
  by (rule real_sqrt_unique) (simp_all add: power2_eq_square)

lemma sqrt_4: "sqrt 4 = 2"
  by (rule real_sqrt_unique) (simp_all add: power2_eq_square)

lemma pearsonr_erosion_positive:
  "pearsonr [1 / 4, 1 / 4, 1, 1] [1, 1, 3, 3] = Inr (Fin 1, PTwoSidedT 2 1)"
  by (simp add: pearsonr_def mean_def Let_def sqrt_9_16 sqrt_4)

lemma pearsonr_two_records:
  "pearsonr [1 / 4, 1] [1, 3] = Inr (Fin 1, PConst 1)"
  by (simp add: pearsonr_def)

text \<open>
  C1. On four countries whose erosion risk rises with the Balance Index the Pearson
  coefficient of the two columns is +1. The dictionary returned by the analysis holds
  +1 for \<open>democratic_erosion_risk\<close>, and the line the analysis prints for that
  variable holds -1: the reported coefficient has its sign forced.
\<close>

theorem correlation_analysis_printed_sign:
  "get_column erosion_positive_data ''balance_index'' = Inr [1 / 4, 1 / 4, 1, 1]
   \<and> get_column erosion_positive_data ''democratic_erosion_risk'' = Inr [1, 1, 3, 3]
   \<and> pearsonr [1 / 4, 1 / 4, 1, 1] [1, 1, 3, 3] = Inr (Fin 1, PTwoSidedT 2 1)
   \<and> correlation_analysis erosion_positive_data =
       Inr ([(''democratic_participation_index'', \<lparr>corr_r = Fin 1, corr_p = PTwoSidedT 2 1\<rparr>),
             (''innovation_capacity_index'', \<lparr>corr_r = Fin 1, corr_p = PTwoSidedT 2 1\<rparr>),
             (''civic_engagement_score'', \<lparr>corr_r = Fin 1, corr_p = PTwoSidedT 2 1\<rparr>),
             (''social_trust_level'', \<lparr>corr_r = Fin 1, corr_p = PTwoSidedT 2 1\<rparr>),
             (''patent_citations_per_capita'', \<lparr>corr_r = Fin 1, corr_p = PTwoSidedT 2 1\<rparr>),
             (''democratic_erosion_risk'', \<lparr>corr_r = Fin 1, corr_p = PTwoSidedT 2 1\<rparr>)],
            [\<lparr>line_label = ''Democratic Participation Index'', line_r = Fin 1,
               line_p = PTwoSidedT 2 1, line_manuscript_r = 689 / 1000\<rparr>,
             \<lparr>line_label = ''Innovation Capacity Index'', line_r = Fin 1,
               line_p = PTwoSidedT 2 1, line_manuscript_r = 847 / 1000\<rparr>,
             \<lparr>line_label = ''Civic Engagement Score'', line_r = Fin 1,
               line_p = PTwoSidedT 2 1, line_manuscript_r = 723 / 1000\<rparr>,
             \<lparr>line_label = ''Social Trust Level'', line_r = Fin 1,
               line_p = PTwoSidedT 2 1, line_manuscript_r = 534 / 1000\<rparr>,
             \<lparr>line_label = ''Patent Citations (per capita)'', line_r = Fin 1,
               line_p = PTwoSidedT 2 1, line_manuscript_r = 656 / 1000\<rparr>,
             \<lparr>line_label = ''Democratic Erosion Risk'', line_r = Fin (- 1),
               line_p = PTwoSidedT 2 1, line_manuscript_r = - (678 / 1000)\<rparr>])"
  by (simp add: correlation_analysis_def variables_def upt_rec get_column_def
        erosion_positive_data_def example_row_def pearsonr_erosion_positive manuscript_r_def)

text \<open>
  C6 (as amended). The correlation analysis has no check of the number of records of
  its own. With fewer than two records the first call of \<open>pearsonr\<close> raises
  \<open>ValueError\<close>; with two records or more the analysis returns, for each of the six
  variables in their listed order, the coefficient and the p-value that \<open>pearsonr\<close>
  gives for the Balance Index column and the column of that variable.
\<close>

theorem correlation_analysis_size_behaviour:
  "(length d < 2 \<longrightarrow>
      correlation_analysis d = Inl (ValueError ''x and y must have length at least 2.''))
   \<and> (2 \<le> length d \<longrightarrow>
        (\<exists>c out. correlation_analysis d = Inr (c, out)
           \<and> map fst c = map fst variables
           \<and> (\<forall>var \<in> set (map fst variables).
                \<exists>ys r p. get_column d var = Inr ys
                  \<and> pearsonr (map row_balance_index d) ys = Inr (r, p)
                  \<and> map_of c var = Some \<lparr>corr_r = r, corr_p = p\<rparr>)))"
proof (intro conjI impI)
  assume "length d < 2"
  then show "correlation_analysis d = Inl (ValueError ''x and y must have length at least 2.'')"
    by (rule correlation_analysis_short)
next
  assume "2 \<le> length d"
  from correlation_analysis_result [OF this]
  obtain r1 p1 r2 p2 r3 p3 r4 p4 r5 p5 r6 p6 c out where
    e: "pearsonr (map row_balance_index d) (map row_democratic_participation_index d) = Inr (r1, p1)"
       "pearsonr (map row_balance_index d) (map row_innovation_capacity_index d) = Inr (r2, p2)"
       "pearsonr (map row_balance_index d) (map row_civic_engagement_score d) = Inr (r3, p3)"
       "pearsonr (map row_balance_index d) (map row_social_trust_level d) = Inr (r4, p4)"
       "pearsonr (map row_balance_index d) (map row_patent_citations_per_capita d) = Inr (r5, p5)"
       "pearsonr (map row_balance_index d) (map row_democratic_erosion_risk d) = Inr (r6, p6)"
    and c: "c = [(''democratic_participation_index'', \<lparr>corr_r = r1, corr_p = p1\<rparr>),
             (''innovation_capacity_index'', \<lparr>corr_r = r2, corr_p = p2\<rparr>),
             (''civic_engagement_score'', \<lparr>corr_r = r3, corr_p = p3\<rparr>),
             (''social_trust_level'', \<lparr>corr_r = r4, corr_p = p4\<rparr>),
             (''patent_citations_per_capita'', \<lparr>corr_r = r5, corr_p = p5\<rparr>),
             (''democratic_erosion_risk'', \<lparr>corr_r = r6, corr_p = p6\<rparr>)]"
    and r: "correlation_analysis d = Inr (c, out)"
    by blast
  have keys: "map fst c = map fst variables"
    by (simp add: c variables_def)
  have each: "\<forall>var \<in> set (map fst variables).
                \<exists>ys r p. get_column d var = Inr ys
                  \<and> pearsonr (map row_balance_index d) ys = Inr (r, p)
                  \<and> map_of c var = Some \<lparr>corr_r = r, corr_p = p\<rparr>"
    by (simp add: variables_def get_column_def c e)
  from r keys each
  show "\<exists>c out. correlation_analysis d = Inr (c, out)
           \<and> map fst c = map fst variables
           \<and> (\<forall>var \<in> set (map fst variables).
                \<exists>ys r p. get_column d var = Inr ys
                  \<and> pearsonr (map row_balance_index d) ys = Inr (r, p)
                  \<and> map_of c var = Some \<lparr>corr_r = r, corr_p = p\<rparr>)"
    by blast
qed

theorem correlation_analysis_size_behaviour_witness:
  "correlation_analysis [example_row ''A'' ''Asia'' 40 10 1]
     = Inl (ValueError ''x and y must have length at least 2.'')
   \<and> (\<exists>c out. correlation_analysis two_record_data = Inr (c, out)
         \<and> map fst c = map fst variables)"
proof -
  have a: "length [example_row ''A'' ''Asia'' 40 10 1] < 2" by simp
  have b: "2 \<le> length two_record_data" by (simp add: two_record_data_def)
  from correlation_analysis_size_behaviour [of "[example_row ''A'' ''Asia'' 40 10 1]"] a
  have x: "correlation_analysis [example_row ''A'' ''Asia'' 40 10 1]
             = Inl (ValueError ''x and y must have length at least 2.'')"
    by blast
  from correlation_analysis_size_behaviour [of two_record_data] b
  have y: "\<exists>c out. correlation_analysis two_record_data = Inr (c, out)
             \<and> map fst c = map fst variables"
    by blast
  from x y show ?thesis by blast
qed

text \<open>
  C6 as stated fails: a table of two records is not rejected. The analysis returns a
  coefficient of 1 and a p-value of 1 for each variable.
\<close>

theorem correlation_two_records_counterexample:
  "length two_record_data < 3
   \<and> correlation_analysis two_record_data \<noteq> Inl InsufficientDataError
   \<and> correlation_analysis two_record_data =
       Inr ([(''democratic_participation_index'', \<lparr>corr_r = Fin 1, corr_p = PConst 1\<rparr>),
             (''innovation_capacity_index'', \<lparr>corr_r = Fin 1, corr_p = PConst 1\<rparr>),
             (''civic_engagement_score'', \<lparr>corr_r = Fin 1, corr_p = PConst 1\<rparr>),
             (''social_trust_level'', \<lparr>corr_r = Fin 1, corr_p = PConst 1\<rparr>),
             (''patent_citations_per_capita'', \<lparr>corr_r = Fin 1, corr_p = PConst 1\<rparr>),
             (''democratic_erosion_risk'', \<lparr>corr_r = Fin 1, corr_p = PConst 1\<rparr>)],
            [\<lparr>line_label = ''Democratic Participation Index'', line_r = Fin 1,
               line_p = PConst 1, line_manuscript_r = 689 / 1000\<rparr>,
             \<lparr>line_label = ''Innovation Capacity Index'', line_r = Fin 1,
               line_p = PConst 1, line_manuscript_r = 847 / 1000\<rparr>,
             \<lparr>line_label = ''Civic Engagement Score'', line_r = Fin 1,
               line_p = PConst 1, line_manuscript_r = 723 / 1000\<rparr>,
             \<lparr>line_label = ''Social Trust Level'', line_r = Fin 1,
               line_p = PConst 1, line_manuscript_r = 534 / 1000\<rparr>,
             \<lparr>line_label = ''Patent Citations (per capita)'', line_r = Fin 1,
               line_p = PConst 1, line_manuscript_r = 656 / 1000\<rparr>,
             \<lparr>line_label = ''Democratic Erosion Risk'', line_r = Fin (- 1),
               line_p = PConst 1, line_manuscript_r = - (678 / 1000)\<rparr>])"
  by (simp add: correlation_analysis_def variables_def upt_rec get_column_def
        two_record_data_def example_row_def pearsonr_two_records manuscript_r_def)

section \<open>Properties of the analysis of variance\<close>

lemma unique_set: "set (unique xs) = set xs"
  by (simp add: unique_def)

lemma unique_distinct: "distinct (unique xs)"
  by (simp add: unique_def)

lemma mean_const:
  assumes ne: "xs \<noteq> []" and all: "\<forall>x \<in> set xs. x = c"
  shows "mean xs = c"
proof -
  from all have "sum_list xs = real (length xs) * c"
    by (induction xs) (simp_all add: algebra_simps)
  with ne show ?thesis by (simp add: mean_def)
qed

lemma sum_list_all_zero:
  "\<forall>x \<in> set xs. f x = (0::real) \<Longrightarrow> sum_list (map f xs) = 0"
  by (induction xs) simp_all

text \<open>
  The two sums of the source are the sums of the specification: both are taken around
  the mean of the whole column, and the sum over the list of distinct regions is the sum
  over the set of regions.
\<close>

lemma anova_sums:
  fixes d :: "country_row list"
  defines "groups \<equiv>
    map (\<lambda>reg. map row_balance_index (filter (\<lambda>row. row_region row = reg) d))
      (unique (map row_region d))"
  defines "grand \<equiv> mean (map row_balance_index d)"
  shows "sum_list (map (\<lambda>x. (x - grand)\<^sup>2) (map row_balance_index d)) = ss_total_spec d"
    and "sum_list (map (\<lambda>group. real (length group) * (mean group - grand)\<^sup>2) groups)
           = ss_between_spec d"
proof -
  show "sum_list (map (\<lambda>x. (x - grand)\<^sup>2) (map row_balance_index d)) = ss_total_spec d"
    by (simp add: grand_def mean_def grand_mean_spec_def ss_total_spec_def comp_def)
  have "sum_list (map (\<lambda>group. real (length group) * (mean group - grand)\<^sup>2) groups)
          = (\<Sum>reg\<leftarrow>unique (map row_region d).
               real (length (group_rows d reg)) * (group_mean_spec d reg - grand_mean_spec d)\<^sup>2)"
    by (simp add: groups_def grand_def comp_def group_rows_def group_mean_spec_def
          grand_mean_spec_def mean_def)
  also have "\<dots> = (\<Sum>reg \<in> set (unique (map row_region d)).
               real (length (group_rows d reg)) * (group_mean_spec d reg - grand_mean_spec d)\<^sup>2)"
    by (rule sum_list_distinct_conv_sum_set) (rule unique_distinct)
  also have "\<dots> = ss_between_spec d"
    by (simp add: unique_set ss_between_spec_def)
  finally show "sum_list (map (\<lambda>group. real (length group) * (mean group - grand)\<^sup>2) groups)
                  = ss_between_spec d" .
qed

lemma f_oneway_same_const:
  assumes "2 \<le> length samples" "\<forall>s \<in> set samples. \<forall>v \<in> set s. v = c"
  shows "f_oneway samples = Inr (NaN, PNaN)"
proof -
  from assms(2) have allc: "\<forall>v \<in> set (concat samples). v = c" by auto
  have "list_all (\<lambda>v. v = hd (concat samples)) (concat samples)"
    unfolding list_all_iff
  proof
    fix v assume v: "v \<in> set (concat samples)"
    then have "concat samples \<noteq> []" by (metis empty_iff empty_set)
    then have "hd (concat samples) \<in> set (concat samples)" by (rule hd_in_set)
    with allc have "hd (concat samples) = c" by blast
    moreover from allc v have "v = c" by blast
    ultimately show "v = hd (concat samples)" by simp
  qed
  with assms(1) show ?thesis
    by (simp add: f_oneway_def Let_def)
qed

lemma f_oneway_mixed:
  "f_oneway [[1 / 4, 1 / 2], [1, 1 / 2]] = Inr (Fin (9 / 5), PUpperF 1 2 (Fin (9 / 5)))"
  by (simp add: f_oneway_def Let_def np_div_def power2_eq_square)

lemma anova_mixed:
  "anova_analysis mixed_data = Inr (Fin (9 / 5), PUpperF 1 2 (Fin (9 / 5)), Fin (9 / 19))"
  by (simp add: anova_analysis_def mixed_data_def example_row_def unique_def f_oneway_mixed
        Let_def mean_def np_div_def power2_eq_square)

text \<open>
  C3. Whenever the analysis of variance returns, its \<open>eta_squared\<close> is the quotient
  (as numpy divides) of the between-group sum of squares by the total sum of squares,
  both taken around the grand mean over all observations: the total sum runs over every
  Balance Index value, the between-group sum over the regions, each group weighted by
  its size. With a non-zero total sum this is the real quotient.
\<close>

theorem anova_eta_squared:
  assumes "anova_analysis d = Inr (f, p, eta)"
  shows "eta = np_div (ss_between_spec d) (ss_total_spec d)
         \<and> (ss_total_spec d \<noteq> 0 \<longrightarrow> eta = Fin (ss_between_spec d / ss_total_spec d))"
proof -
  let ?groups = "map (\<lambda>reg. map row_balance_index (filter (\<lambda>row. row_region row = reg) d))
                   (unique (map row_region d))"
  let ?grand = "mean (map row_balance_index d)"
  from assms have
    "eta = np_div (sum_list (map (\<lambda>group. real (length group) * (mean group - ?grand)\<^sup>2) ?groups))
             (sum_list (map (\<lambda>x. (x - ?grand)\<^sup>2) (map row_balance_index d)))"
    by (auto simp: anova_analysis_def Let_def split: sum.splits)
  then have e: "eta = np_div (ss_between_spec d) (ss_total_spec d)"
    by (simp only: anova_sums)
  then show ?thesis by (simp add: np_div_def)
qed

theorem anova_eta_squared_witness:
  "anova_analysis mixed_data = Inr (Fin (9 / 5), PUpperF 1 2 (Fin (9 / 5)), Fin (9 / 19))
   \<and> Fin (9 / 19) = np_div (ss_between_spec mixed_data) (ss_total_spec mixed_data)"
  using anova_eta_squared [OF anova_mixed] anova_mixed by simp

lemma anova_analysis_np_exact: "anova_analysis_np mean d = anova_analysis d"
  by (simp add: anova_analysis_np_def anova_analysis_def)

text \<open>
  Where the computed mean of a constant column is not the common value, the quotient
  is whatever the two sums give: 1 on \<open>tenth_data\<close> and infinity on
  \<open>tenth_data_four\<close> under \<open>rounded_mean\<close>.
\<close>

lemma anova_rounded_mean_three:
  "anova_analysis_np rounded_mean tenth_data = Inr (NaN, PNaN, Fin 1)"
  by (simp add: anova_analysis_np_def tenth_data_def example_row_def unique_def
        f_oneway_def Let_def rounded_mean_def mean_def np_div_def power2_eq_square)

lemma anova_rounded_mean_four:
  "anova_analysis_np rounded_mean tenth_data_four = Inr (NaN, PNaN, PInf)"
  by (simp add: anova_analysis_np_def tenth_data_four_def example_row_def unique_def
        f_oneway_def Let_def rounded_mean_def mean_def np_div_def power2_eq_square)

text \<open>
  C5 (as amended). For every table with at least two regions in which all Balance Index
  values are identical, and whatever \<open>np.mean\<close> computes, the analysis of variance
  does not raise and returns NaN for F and for the p-value; \<open>eta_squared\<close> is the
  unguarded quotient of the two computed sums. Where \<open>np.mean\<close> returns the common
  value for the whole column and for the group of every region, both sums are 0 and
  \<open>eta_squared\<close> is NaN, the value of the division 0/0.
\<close>

theorem anova_constant_balance:
  assumes k: "2 \<le> card (row_region ` set d)"
    and c: "\<forall>row \<in> set d. row_balance_index row = c"
  shows "(\<exists>eta. anova_analysis_np np_mean d = Inr (NaN, PNaN, eta))
       \<and> (np_mean (map row_balance_index d) = c
          \<and> (\<forall>g \<in> row_region ` set d. np_mean (map row_balance_index (group_rows d g)) = c)
          \<longrightarrow> anova_analysis_np np_mean d = Inr (NaN, PNaN, NaN))"
proof -
  let ?regions = "unique (map row_region d)"
  let ?groups = "map (\<lambda>reg. map row_balance_index (filter (\<lambda>row. row_region row = reg) d))
                   ?regions"
  let ?col = "map row_balance_index d"
  have "card (row_region ` set d) = length ?regions"
    using distinct_card [OF unique_distinct, of "map row_region d"] by (simp add: unique_set)
  with k have len: "2 \<le> length ?groups" by simp
  have allc: "\<forall>s \<in> set ?groups. \<forall>v \<in> set s. v = c"
    using c by auto
  have f: "f_oneway ?groups = Inr (NaN, PNaN)"
    using len allc by (rule f_oneway_same_const)
  have ret: "\<exists>eta. anova_analysis_np np_mean d = Inr (NaN, PNaN, eta)"
    unfolding anova_analysis_np_def Let_def f by simp
  have ex: "anova_analysis_np np_mean d = Inr (NaN, PNaN, NaN)"
    if grand: "np_mean ?col = c"
      and gm: "\<forall>g \<in> row_region ` set d. np_mean (map row_balance_index (group_rows d g)) = c"
  proof -
    have b: "sum_list (map (\<lambda>group. real (length group) * (np_mean group - np_mean ?col)\<^sup>2)
               ?groups) = 0"
    proof (rule sum_list_all_zero, rule ballI)
      fix g assume "g \<in> set ?groups"
      then obtain reg where "reg \<in> row_region ` set d"
        and "g = map row_balance_index (group_rows d reg)"
        by (auto simp: unique_set group_rows_def)
      with gm have "np_mean g = c" by blast
      then show "real (length g) * (np_mean g - np_mean ?col)\<^sup>2 = 0"
        by (simp add: grand)
    qed
    have t: "sum_list (map (\<lambda>x. (x - np_mean ?col)\<^sup>2) ?col) = 0"
    proof (rule sum_list_all_zero, rule ballI)
      fix x assume "x \<in> set ?col"
      with c have "x = c" by auto
      then show "(x - np_mean ?col)\<^sup>2 = 0"
        by (simp add: grand)
    qed
    show ?thesis
      unfolding anova_analysis_np_def Let_def f
      by (simp only: b t sum.case prod.case) (simp add: np_div_def)
  qed
  from ret ex show ?thesis by blast
qed

theorem anova_constant_balance_witness:
  "2 \<le> card (row_region ` set constant_balance_data)
   \<and> map row_balance_index constant_balance_data = [1 / 2, 1 / 2, 1 / 2, 1 / 2]
   \<and> rounded_mean [1 / 2, 1 / 2, 1 / 2, 1 / 2] = 1 / 2
   \<and> rounded_mean [1 / 2, 1 / 2] = 1 / 2
   \<and> anova_analysis_np rounded_mean constant_balance_data = Inr (NaN, PNaN, NaN)"
proof -
  have k: "2 \<le> card (row_region ` set constant_balance_data)"
    by (simp add: constant_balance_data_def example_row_def)
  have c: "\<forall>row \<in> set constant_balance_data. row_balance_index row = 1 / 2"
    by (simp add: constant_balance_data_def example_row_def)
  have m: "map row_balance_index constant_balance_data = [1 / 2, 1 / 2, 1 / 2, 1 / 2]"
    by (simp add: constant_balance_data_def example_row_def)
  have m4: "rounded_mean [1 / 2, 1 / 2, 1 / 2, 1 / 2] = 1 / 2"
    by (simp add: rounded_mean_def mean_def)
  have m2: "rounded_mean [1 / 2, 1 / 2] = 1 / 2"
    by (simp add: rounded_mean_def mean_def)
  have grand: "rounded_mean (map row_balance_index constant_balance_data) = 1 / 2"
    by (simp only: m m4)
  have gm: "\<forall>g \<in> row_region ` set constant_balance_data.
              rounded_mean (map row_balance_index (group_rows constant_balance_data g)) = 1 / 2"
    by (simp add: constant_balance_data_def example_row_def group_rows_def rounded_mean_def
          mean_def)
  from anova_constant_balance [OF k c, of rounded_mean] grand gm
  have "anova_analysis_np rounded_mean constant_balance_data = Inr (NaN, PNaN, NaN)"
    by blast
  with k m m4 m2 show ?thesis by blast
qed

text \<open>
  C5 as stated fails: on two regions whose four Balance Index values are all 1/2 the
  returned \<open>eta_squared\<close> is NaN, not 0. Every mean of this table is exact in
  double precision.
\<close>

theorem anova_constant_counterexample:
  "anova_analysis constant_balance_data = Inr (NaN, PNaN, NaN)
   \<and> anova_analysis constant_balance_data \<noteq> Inr (NaN, PNaN, Fin 0)"
  by (simp add: anova_analysis_def constant_balance_data_def example_row_def unique_def
        f_oneway_def Let_def mean_def np_div_def power2_eq_square)

section \<open>Properties of the stratification ratio\<close>

lemma series_max_Max: "xs \<noteq> [] \<Longrightarrow> series_max xs = Fin (Max (set xs))"
  by (cases xs) (simp_all add: Max.set_eq_fold [symmetric])

lemma series_min_Min: "xs \<noteq> [] \<Longrightarrow> series_min xs = Fin (Min (set xs))"
  by (cases xs) (simp_all add: Min.set_eq_fold [symmetric])

lemma ratio_gaps:
  assumes "d \<noteq> []"
  shows "digital_stratification_ratio d = Inr (np_div (stem_gap_spec d) (hum_gap_spec d))"
  using assms
  by (simp add: digital_stratification_ratio_def series_max_Max series_min_Min
        stem_gap_spec_def hum_gap_spec_def)

lemma gap_nonneg: "finite S \<Longrightarrow> S \<noteq> {} \<Longrightarrow> 0 \<le> Max S - Min (S :: real set)"
  by (simp add: Min_le_iff)

lemma gap_zero_iff:
  assumes "finite S" "S \<noteq> {}"
  shows "Max S - Min S = (0::real) \<longleftrightarrow> (\<forall>x \<in> S. \<forall>y \<in> S. x = y)"
proof
  assume "Max S - Min S = 0"
  then have e: "Max S = Min S" by simp
  show "\<forall>x \<in> S. \<forall>y \<in> S. x = y"
  proof (intro ballI)
    fix x y assume "x \<in> S" "y \<in> S"
    with assms have "Min S \<le> x" "x \<le> Max S" "Min S \<le> y" "y \<le> Max S" by simp_all
    with e show "x = y" by simp
  qed
next
  assume a: "\<forall>x \<in> S. \<forall>y \<in> S. x = y"
  from assms have "Max S \<in> S" "Min S \<in> S" by simp_all
  with a show "Max S - Min S = 0" by simp
qed

text \<open>
  C4 (as amended). The stratification ratio never fails. On a non-empty table in which
  all humanities percentages are identical it returns +infinity when the STEM
  percentages differ and NaN when they are identical too; on every other non-empty
  table it returns (max STEM - min STEM) / (max humanities - min humanities).
\<close>

theorem stratification_ratio_sentinel:
  assumes "d \<noteq> []"
  shows "((\<forall>a \<in> set d. \<forall>b \<in> set d. row_humanities_percent a = row_humanities_percent b) \<longrightarrow>
            digital_stratification_ratio d
              = Inr (if stem_gap_spec d = 0 then NaN else PInf))
       \<and> (\<not> (\<forall>a \<in> set d. \<forall>b \<in> set d. row_humanities_percent a = row_humanities_percent b) \<longrightarrow>
            digital_stratification_ratio d = Inr (Fin (stem_gap_spec d / hum_gap_spec d)))"
proof -
  let ?H = "row_humanities_percent ` set d"
  let ?S = "row_stem_percent ` set d"
  from assms have fin: "finite ?H" "?H \<noteq> {}" "finite ?S" "?S \<noteq> {}" by simp_all
  have hz: "hum_gap_spec d = 0 \<longleftrightarrow>
      (\<forall>a \<in> set d. \<forall>b \<in> set d. row_humanities_percent a = row_humanities_percent b)"
    unfolding hum_gap_spec_def using gap_zero_iff [OF fin(1,2)] by auto
  have sn: "0 \<le> stem_gap_spec d"
    unfolding stem_gap_spec_def using fin(3,4) by (rule gap_nonneg)
  show ?thesis
    using sn by (auto simp: ratio_gaps [OF assms] np_div_def hz [symmetric])
qed

text \<open>STEM range [40,44] and humanities range [5,10] give (44 - 40) / (10 - 5) = 0.8.\<close>

theorem stratification_ratio_sentinel_witness:
  "spread_data \<noteq> []
   \<and> map row_humanities_percent spread_data = [5, 10]
   \<and> stem_gap_spec spread_data = 4
   \<and> hum_gap_spec spread_data = 5
   \<and> digital_stratification_ratio spread_data = Inr (Fin (4 / 5))"
proof -
  have ne: "spread_data \<noteq> []"
    by (simp add: spread_data_def)
  have nh: "\<not> (\<forall>a \<in> set spread_data. \<forall>b \<in> set spread_data.
                 row_humanities_percent a = row_humanities_percent b)"
    by (simp add: spread_data_def example_row_def)
  have sg: "stem_gap_spec spread_data = 4"
    by (simp add: stem_gap_spec_def spread_data_def example_row_def)
  have hg: "hum_gap_spec spread_data = 5"
    by (simp add: hum_gap_spec_def spread_data_def example_row_def)
  from stratification_ratio_sentinel [OF ne] nh
  have "digital_stratification_ratio spread_data
          = Inr (Fin (stem_gap_spec spread_data / hum_gap_spec spread_data))"
    by blast
  then have "digital_stratification_ratio spread_data = Inr (Fin (4 / 5))"
    by (simp only: sg hg)
  moreover have "map row_humanities_percent spread_data = [5, 10]"
    by (simp add: spread_data_def example_row_def)
  ultimately show ?thesis using ne sg hg by blast
qed

text \<open>
  C4 as stated fails: with humanities 5 in both rows and STEM 40 and 44 the function
  returns +infinity and raises nothing.
\<close>

theorem stratification_ratio_counterexample:
  "hum_gap_spec flat_humanities_data = 0
   \<and> digital_stratification_ratio flat_humanities_data = Inr PInf
   \<and> digital_stratification_ratio flat_humanities_data \<noteq> Inl DegenerateSpreadError"
  by (simp add: digital_stratification_ratio_def hum_gap_spec_def flat_humanities_data_def
        example_row_def np_div_def)

section \<open>Properties of the time-series analysis\<close>

lemma sum_list_affine:
  "sum_list (map (\<lambda>x. a + b * x) xs) = real (length xs) * a + b * sum_list (xs :: real list)"
  by (induction xs) (simp_all add: algebra_simps)

lemma mean_affine:
  "xs \<noteq> [] \<Longrightarrow> mean (map (\<lambda>x. a + b * x) xs) = a + b * mean xs"
  by (simp add: mean_def sum_list_affine add_divide_distrib)

lemma sum_squares_zero:
  "sum_list (map (\<lambda>v. v * v) (zs :: real list)) = 0 \<Longrightarrow> \<forall>z \<in> set zs. z = 0"
proof (induction zs)
  case Nil
  then show ?case by simp
next
  case (Cons z zs)
  have nn: "0 \<le> sum_list (map (\<lambda>v. v * v) zs)"
    by (rule sum_list_nonneg) auto
  from Cons.prems have "z * z + sum_list (map (\<lambda>v. v * v) zs) = 0" by simp
  with nn have "z * z = 0" "sum_list (map (\<lambda>v. v * v) zs) = 0"
    by (simp_all add: add_nonneg_eq_0_iff)
  with Cons.IH show ?case by simp
qed

lemma sxy_proportional:
  "sum_list (map2 (\<lambda>a b. a * b) (map (\<lambda>v. v - m) xs) (map (\<lambda>x. b * (x - m)) xs))
     = b * sum_list (map (\<lambda>v. v * v) (map (\<lambda>v. v - (m::real)) xs))"
  by (induction xs) (simp_all add: algebra_simps)

lemma linear_regression_exact:
  assumes ne: "xs \<noteq> []" and two: "\<exists>u \<in> set xs. \<exists>v \<in> set xs. u \<noteq> v"
  shows "linear_regression_coef xs (map (\<lambda>x. a + b * x) xs) = Inr b"
proof -
  let ?m = "mean xs"
  let ?xc = "map (\<lambda>v. v - ?m) xs"
  let ?ys = "map (\<lambda>x. a + b * x) xs"
  let ?yc = "map (\<lambda>v. v - mean ?ys) ?ys"
  let ?sxx = "sum_list (map (\<lambda>v. v * v) ?xc)"
  have ma: "mean ?ys = a + b * ?m"
    using ne by (rule mean_affine)
  have yc: "?yc = map (\<lambda>x. b * (x - ?m)) xs"
    unfolding ma by (simp add: algebra_simps)
  have sxy: "sum_list (map2 (\<lambda>a b. a * b) ?xc ?yc) = b * ?sxx"
    unfolding yc by (rule sxy_proportional)
  have nz: "?sxx \<noteq> 0"
  proof
    assume "?sxx = 0"
    then have "\<forall>z \<in> set ?xc. z = 0" by (rule sum_squares_zero)
    then have "\<forall>x \<in> set xs. x = ?m" by simp
    with two show False by metis
  qed
  from ne nz show ?thesis
    by (simp add: linear_regression_coef_def Let_def sxy del: map_map)
qed

lemma yearly_index_set: "set (yearly_index ts) = ts_year ` set ts"
  by (simp add: yearly_index_def)

lemma yearly_mean_linear:
  assumes "\<forall>row \<in> set ts. col row = a + b * real_of_int (ts_year row)"
  shows "yearly_mean col ts = map (\<lambda>x. a + b * x) (map real_of_int (yearly_index ts))"
proof -
  have "mean (map col (filter (\<lambda>row. ts_year row = y) ts)) = a + b * real_of_int y"
    if "y \<in> set (yearly_index ts)" for y
  proof (rule mean_const)
    from that have "y \<in> ts_year ` set ts" by (simp add: yearly_index_set)
    then show "map col (filter (\<lambda>row. ts_year row = y) ts) \<noteq> []"
      by (auto simp: filter_empty_conv)
    show "\<forall>x \<in> set (map col (filter (\<lambda>row. ts_year row = y) ts)). x = a + b * real_of_int y"
      using assms by auto
  qed
  then show ?thesis
    by (simp add: yearly_mean_def)
qed

text \<open>
  A region whose rows lie on a line \<open>a + b * year\<close>, observed in at least two
  years, has trend \<open>b\<close> whatever the gaps between its years; with
  \<open>a = 40 - 0.5 * 2015\<close> and \<open>b = 0.5\<close> this is the series
  \<open>40 + 0.5 * (year - 2015)\<close>.
\<close>

lemma trend_spec_linear:
  assumes lin: "\<forall>row \<in> set ts. ts_region row = reg \<longrightarrow> col row = a + b * real_of_int (ts_year row)"
    and two: "\<exists>r1 \<in> set ts. \<exists>r2 \<in> set ts.
                ts_region r1 = reg \<and> ts_region r2 = reg \<and> ts_year r1 \<noteq> ts_year r2"
  shows "trend_spec ts reg col = Inr b"
proof -
  let ?rt = "filter (\<lambda>row. ts_region row = reg) ts"
  let ?xs = "map real_of_int (yearly_index ?rt)"
  from lin have "\<forall>row \<in> set ?rt. col row = a + b * real_of_int (ts_year row)" by simp
  then have ym: "yearly_mean col ?rt = map (\<lambda>x. a + b * x) ?xs"
    by (rule yearly_mean_linear)
  from two obtain r1 r2 where r: "r1 \<in> set ?rt" "r2 \<in> set ?rt" "ts_year r1 \<noteq> ts_year r2"
    by auto
  then have m: "real_of_int (ts_year r1) \<in> set ?xs" "real_of_int (ts_year r2) \<in> set ?xs"
    by (auto simp: yearly_index_set)
  then have ne: "?xs \<noteq> []" by auto
  from m r(3) have d: "\<exists>u \<in> set ?xs. \<exists>v \<in> set ?xs. u \<noteq> v"
    by (intro bexI [of _ "real_of_int (ts_year r1)"] bexI [of _ "real_of_int (ts_year r2)"]) simp_all
  show ?thesis
    unfolding trend_spec_def Let_def ym
    using ne d by (rule linear_regression_exact)
qed

text \<open>
  The two Asia slopes of the source are the trends of Asia against Asia's own years. The
  Europe slope is the fit of Europe's yearly means against Asia's years.
\<close>

lemma time_series_asia:
  assumes "time_series_analysis ts = Inr (a, h, e)"
  shows "trend_spec ts ''Asia'' ts_stem_percent = Inr a
       \<and> trend_spec ts ''Asia'' ts_humanities_percent = Inr h
       \<and> linear_regression_coef
           (map real_of_int (yearly_index (filter (\<lambda>row. ts_region row = ''Asia'') ts)))
           (yearly_mean ts_stem_percent (filter (\<lambda>row. ts_region row = ''Europe'') ts)) = Inr e"
  using assms
  by (auto simp: time_series_analysis_def trend_spec_def Let_def split: sum.splits)

text \<open>
  C9. Both regions of \<open>gap_series\<close> follow \<open>stem_percent = 40 + 0.5 * (year - 2015)\<close>.
  Asia is observed in 2015, 2016, 2017 and its slope is 0.5. Europe is observed in
  2015, 2017, 2019: the least-squares slope against Europe's own years is 0.5, and the
  analysis returns 1 for it, having fitted Europe's yearly means against Asia's years.
\<close>

theorem time_series_europe_years:
  "time_series_analysis gap_series = Inr (1 / 2, 0, 1)
   \<and> trend_spec gap_series ''Asia'' ts_stem_percent = Inr (1 / 2)
   \<and> trend_spec gap_series ''Europe'' ts_stem_percent = Inr (1 / 2)
   \<and> yearly_index (filter (\<lambda>row. ts_region row = ''Asia'') gap_series) = [2015, 2016, 2017]
   \<and> yearly_index (filter (\<lambda>row. ts_region row = ''Europe'') gap_series) = [2015, 2017, 2019]"
  by (simp add: time_series_analysis_def trend_spec_def gap_series_def yearly_index_def
        yearly_mean_def linear_regression_coef_def mean_def Let_def)

end
